theory Spec2Isabelle
  imports Complex_Main "HOL-Library.Multiset" "HOL-Library.AList" "HOL-Library.Log_Nat"
begin

section \<open>Data model of the live auction engine\<close>

text \<open>
  The socket handler module keeps its state in four Mongoose collections (Player, Team,
  Bid, AuctionState) and in module-level variables (\<open>auctionTimer\<close>, \<open>timerValue\<close>,
  \<open>playerQueue\<close>, \<open>isAutoAuction\<close>, \<open>unsoldPlayers\<close>, \<open>isTeamSummaryShowing\<close>) plus the
  per-process maps \<open>connectedTeams\<close> and \<open>adminSockets\<close>. Every handler is modelled as a
  function from the state before to the state after; one handler runs to completion
  before the next one starts. Document ids, socket ids and timestamps are natural
  numbers. Amounts, prices and budgets, which are JavaScript Numbers in the source, are
  integers; the section on Number arithmetic says what that leaves out, and the facts
  that depend on exact arithmetic are stated for the range where the source is exact.
\<close>

type_synonym socket_id = nat
type_synonym team_id = nat
type_synonym player_id = nat
type_synonym time = nat

datatype player_status = AVAILABLE | IN_AUCTION | SOLD | UNSOLD

record player =
  basePrice :: int
  status :: player_status
  soldTo :: "team_id option"
  soldPrice :: "int option"
  soldAt :: "time option"

record team =
  remainingPoints :: int
  rosterSlotsFilled :: int
  players :: "player_id list"
  isOnline :: bool
  lastActive :: "time option"

record bid =
  bid_player :: player_id
  bid_team :: team_id
  bid_amount :: int
  isWinning :: bool

record high_bid =
  amount :: int
  team :: "team_id option"

record auction_state =
  currentPlayer :: "player_id option"
  currentHighBid :: high_bid
  isActive :: bool
  isPaused :: bool
  lastBidAt :: "time option"
  auctionStartedAt :: "time option"
  recentlySold :: "(player_id \<times> team_id \<times> int \<times> time) list"

text \<open>The messages of \<open>bid:error\<close> and of the admin \<open>error\<close> event, one constructor each.\<close>

datatype bid_error =
    NotAuthenticated
  | AuctionNotActive
  | PlayerNotInAuction
  | BidMustBeAtLeast int
  | BidMustBeHigherThan int
  | InsufficientPoints int
  | AlreadyHighestBidder
  | FailedToPlaceBid

datatype admin_error =
    Unauthorized
  | WaitForTeamSummary
  | PlayerNotAvailable
  | CannotUndoSale
  | NoPlayersAvailable
  | FailedToStartAutoAuction

datatype target = ToSocket socket_id | ToAll | ToAdmin

datatype event =
    AuthError
  | AuthSuccess
  | Connected
  | AuctionStateEvent int
  | TeamSummaryShowing bool
  | BidError bid_error
  | BidNew int team_id
  | BidSuccess
  | ErrorEvent admin_error
  | TimerUpdate int
  | TimerReset int
  | AuctionStarted player_id int int
  | AuctionPaused
  | AuctionResumed
  | SaleUndone player_id
  | PlayerSold player_id "team_id option" int
  | TeamsStatus
  | AutoAuctionStarted nat nat
  | AutoAuctionStopped nat nat
  | AutoAuctionPlayerUnsold player_id nat
  | AutoAuctionQueueUpdate nat nat nat
  | AutoAuctionUnsoldRound nat
  | AutoAuctionCompleted
  | AutoAuctionStatus bool nat nat nat
  | AuctionAllCompleted

text \<open>
  \<open>playerStore\<close> is the Player collection in its natural order (\<open>Player.find\<close> lists it,
  \<open>findById\<close> is \<open>map_of\<close>); \<open>teamStore\<close> is the Team collection; \<open>bidStore\<close> the Bid
  collection; \<open>auctionStateStore\<close> the result of \<open>AuctionState.findOne()\<close>.
  \<open>bigScreenSockets\<close> is the set of display connections.
  \<open>auctionTimer\<close> says whether the interval handle is set; \<open>pendingAdvance\<close> counts the
  \<open>setTimeout\<close> callbacks of \<open>handleAutoSold\<close> that have not fired yet; \<open>outbox\<close> is the log
  of emitted socket events, oldest first; \<open>envTimerDuration\<close> is
  \<open>Number.parseInt(process.env.TIMER_DURATION)\<close>, \<open>None\<close> for NaN.
\<close>

record state =
  playerStore :: "(player_id \<times> player) list"
  teamStore :: "team_id \<rightharpoonup> team"
  bidStore :: "bid list"
  auctionStateStore :: "auction_state option"
  auctionTimer :: bool
  timerValue :: int
  playerQueue :: "player_id list"
  isAutoAuction :: bool
  unsoldPlayers :: "player_id list"
  isTeamSummaryShowing :: bool
  connectedTeams :: "socket_id \<rightharpoonup> team_id"
  adminSockets :: "socket_id set"
  bigScreenSockets :: "socket_id set"
  pendingAdvance :: nat
  outbox :: "(target \<times> event) list"
  envTimerDuration :: "int option"

definition emit :: "target \<Rightarrow> event \<Rightarrow> state \<Rightarrow> state" where
  "emit tg ev s = s\<lparr>outbox := outbox s @ [(tg, ev)]\<rparr>"

definition findPlayer :: "state \<Rightarrow> player_id \<Rightarrow> player option" where
  "findPlayer s k = map_of (playerStore s) k"

definition savePlayer :: "player_id \<Rightarrow> player \<Rightarrow> state \<Rightarrow> state" where
  "savePlayer k p s = s\<lparr>playerStore := AList.update k p (playerStore s)\<rparr>"

definition saveTeam :: "team_id \<Rightarrow> team \<Rightarrow> state \<Rightarrow> state" where
  "saveTeam k t s = s\<lparr>teamStore := (teamStore s)(k \<mapsto> t)\<rparr>"

section \<open>Timer functions\<close>

definition timerDuration :: "state \<Rightarrow> int" where
  \<comment> \<open>\<open>Number.parseInt(process.env.TIMER_DURATION) || 20\<close>: NaN and 0 are falsy.\<close>
  "timerDuration s =
     (case envTimerDuration s of None \<Rightarrow> 20 | Some n \<Rightarrow> if n = 0 then 20 else n)"

definition stopTimer :: "state \<Rightarrow> state" where
  "stopTimer s = (if auctionTimer s then s\<lparr>auctionTimer := False\<rparr> else s)"

definition startTimer :: "state \<Rightarrow> state" where
  "startTimer s =
     (let s1 = stopTimer s;
          s2 = s1\<lparr>timerValue := timerDuration s1\<rparr>;
          s3 = emit ToAll (TimerUpdate (timerValue s2)) s2
      in s3\<lparr>auctionTimer := True\<rparr>)"

definition resetTimer :: "state \<Rightarrow> state" where
  "resetTimer s =
     (let s1 = s\<lparr>timerValue := 10\<rparr> in emit ToAll (TimerReset (timerValue s1)) s1)"

section \<open>Bid placement\<close>

text \<open>
  The chain of early returns of the \<open>bid:place\<close> handler. \<open>Inl\<close> is the message sent back
  with \<open>bid:error\<close>; \<open>Inr\<close> carries the team id, the player id and the auction state the
  handler goes on with. \<open>Player.findById(null)\<close> finds nothing. \<open>Team.findById\<close> may
  return \<open>null\<close>; the handler then throws at \<open>team.remainingPoints\<close> and its \<open>catch\<close>
  answers "Failed to place bid".
\<close>

definition bid_validate ::
  "socket_id \<Rightarrow> int \<Rightarrow> state \<Rightarrow> bid_error + (team_id \<times> player_id \<times> auction_state)" where
  "bid_validate sid amt s =
     (case connectedTeams s sid of
        None \<Rightarrow> Inl NotAuthenticated
      | Some teamId \<Rightarrow>
        (case auctionStateStore s of
           None \<Rightarrow> Inl AuctionNotActive
         | Some auctionState \<Rightarrow>
           if \<not> isActive auctionState \<or> isPaused auctionState then Inl AuctionNotActive
           else
             (case currentPlayer auctionState of
                None \<Rightarrow> Inl PlayerNotInAuction
              | Some playerId \<Rightarrow>
                (case findPlayer s playerId of
                   None \<Rightarrow> Inl PlayerNotInAuction
                 | Some pl \<Rightarrow>
                   if status pl \<noteq> IN_AUCTION then Inl PlayerNotInAuction
                   else
                     let cur = amount (currentHighBid auctionState);
                         hasNoBids = (team (currentHighBid auctionState) = None)
                     in
                       if hasNoBids \<and> amt < cur then Inl (BidMustBeAtLeast cur)
                       else if \<not> hasNoBids \<and> amt \<le> cur then Inl (BidMustBeHigherThan cur)
                       else
                         (case teamStore s teamId of
                            None \<Rightarrow> Inl FailedToPlaceBid
                          | Some tm \<Rightarrow>
                            if amt > remainingPoints tm
                            then Inl (InsufficientPoints (remainingPoints tm))
                            else if \<not> hasNoBids \<and>
                                    team (currentHighBid auctionState) = Some teamId
                            then Inl AlreadyHighestBidder
                            else Inr (teamId, playerId, auctionState))))))"

definition bid_place :: "socket_id \<Rightarrow> int \<Rightarrow> time \<Rightarrow> state \<Rightarrow> state" where
  "bid_place sid amt now s =
     (case bid_validate sid amt s of
        Inl err \<Rightarrow> emit (ToSocket sid) (BidError err) s
      | Inr (teamId, playerId, auctionState) \<Rightarrow>
          let s1 = s\<lparr>bidStore := bidStore s @
                     [\<lparr>bid_player = playerId, bid_team = teamId, bid_amount = amt, isWinning = False\<rparr>]\<rparr>;
              s2 = s1\<lparr>auctionStateStore := Some (auctionState
                     \<lparr>currentHighBid := \<lparr>amount = amt, team = Some teamId\<rparr>,
                      lastBidAt := Some now\<rparr>)\<rparr>;
              s3 = resetTimer s2;
              s4 = emit ToAll (BidNew amt teamId) s3
          in emit (ToSocket sid) BidSuccess s4)"

section \<open>Starting a lot\<close>

definition newAuctionState :: auction_state where
  \<comment> \<open>Modelled from the spec: the defaults of \<open>new AuctionState()\<close>, whose schema is not
      part of the sources at hand. Section 3 lists the fields; a fresh record has no
      current lot, no high bidder, is neither active nor paused and has sold nothing.\<close>
  "newAuctionState =
     \<lparr>currentPlayer = None, currentHighBid = \<lparr>amount = 5, team = None\<rparr>,
      isActive = False, isPaused = False, lastBidAt = None, auctionStartedAt = None,
      recentlySold = []\<rparr>"

definition startAuctionForPlayer :: "time \<Rightarrow> player_id \<Rightarrow> state \<Rightarrow> state" where
  "startAuctionForPlayer now playerId s =
     (case findPlayer s playerId of
        None \<Rightarrow> s
      | Some pl \<Rightarrow>
          if status pl = SOLD then s
          else
            let pl1 = pl\<lparr>status := IN_AUCTION\<rparr>;
                s1 = savePlayer playerId pl1 s;
                auctionState = (case auctionStateStore s1 of
                                  None \<Rightarrow> newAuctionState | Some a \<Rightarrow> a);
                s2 = s1\<lparr>auctionStateStore := Some (auctionState
                       \<lparr>currentPlayer := Some playerId,
                        isActive := True,
                        isPaused := False,
                        currentHighBid := \<lparr>amount = basePrice pl1, team = None\<rparr>,
                        auctionStartedAt := Some now\<rparr>)\<rparr>;
                s3 = startTimer s2
            in emit ToAll (AuctionStarted playerId (basePrice pl1) (timerValue s3)) s3)"

definition admin_startAuction :: "socket_id \<Rightarrow> player_id \<Rightarrow> time \<Rightarrow> state \<Rightarrow> state" where
  "admin_startAuction sid playerId now s =
     (if sid \<notin> adminSockets s then emit (ToSocket sid) (ErrorEvent Unauthorized) s
      else if isTeamSummaryShowing s then emit (ToSocket sid) (ErrorEvent WaitForTeamSummary) s
      else
        (case findPlayer s playerId of
           None \<Rightarrow> emit (ToSocket sid) (ErrorEvent PlayerNotAvailable) s
         | Some pl \<Rightarrow>
             if status pl = SOLD then emit (ToSocket sid) (ErrorEvent PlayerNotAvailable) s
             else startAuctionForPlayer now playerId s))"

section \<open>The auto-run queue\<close>

text \<open>
  \<open>processNextPlayerInQueue\<close> calls itself after skipping a sold or missing player and
  after moving the unsold list into the queue. Each call either shortens the queue or
  empties the unsold list into an empty queue, so it terminates.
\<close>

function processNextPlayerInQueue :: "time \<Rightarrow> state \<Rightarrow> state" where
  "processNextPlayerInQueue now s =
     (case playerQueue s of
        playerId # rest \<Rightarrow>
          (let s1 = emit ToAdmin
                      (AutoAuctionQueueUpdate (length rest) (length (unsoldPlayers s))
                         (length rest + length (unsoldPlayers s)))
                      (s\<lparr>playerQueue := rest\<rparr>)
           in case findPlayer s1 playerId of
                None \<Rightarrow> processNextPlayerInQueue now s1
              | Some pl \<Rightarrow>
                  if status pl \<noteq> SOLD then startAuctionForPlayer now playerId s1
                  else processNextPlayerInQueue now s1)
      | [] \<Rightarrow>
          if length (unsoldPlayers s) > 0
          then processNextPlayerInQueue now
                 (emit ToAdmin (AutoAuctionUnsoldRound (length (unsoldPlayers s)))
                    (s\<lparr>playerQueue := unsoldPlayers s, unsoldPlayers := []\<rparr>))
          else emit ToAll AuctionAllCompleted
                 (emit ToAdmin AutoAuctionCompleted (s\<lparr>isAutoAuction := False\<rparr>)))"
  by pat_completeness auto
termination
  by (relation "measure (\<lambda>(now, s). length (playerQueue s) + 2 * length (unsoldPlayers s))")
     (auto simp: emit_def)

declare processNextPlayerInQueue.simps [simp del]

section \<open>Settlement\<close>

text \<open>
  \<open>populateTeam\<close> is \<open>.populate('currentHighBid.team')\<close>: the team document, or \<open>null\<close>
  when the reference is \<open>null\<close> or names no document. The debit
  \<open>winningTeam.remainingPoints -= soldPrice\<close> is exact here; the source rounds it to a
  double (see \<open>budget_after_sale\<close>).
\<close>

definition populateTeam :: "state \<Rightarrow> auction_state \<Rightarrow> (team_id \<times> team) option" where
  "populateTeam s a =
     (case team (currentHighBid a) of
        None \<Rightarrow> None
      | Some tid \<Rightarrow> (case teamStore s tid of None \<Rightarrow> None | Some tm \<Rightarrow> Some (tid, tm)))"

definition handleAutoSold :: "time \<Rightarrow> state \<Rightarrow> state" where
  "handleAutoSold now s0 =
     (let s = stopTimer s0 in
      case auctionStateStore s of
        None \<Rightarrow> s
      | Some auctionState \<Rightarrow>
        (case Option.bind (currentPlayer auctionState) (\<lambda>k. map_option (Pair k) (findPlayer s k)) of
           None \<Rightarrow> s
         | Some (playerId, pl) \<Rightarrow>
             let winningTeam = populateTeam s auctionState;
                 price = amount (currentHighBid auctionState);
                 (s1, a1) =
                   (case winningTeam of
                      Some (tid, tm) \<Rightarrow>
                        (saveTeam tid
                           (tm\<lparr>remainingPoints := remainingPoints tm - price,
                               rosterSlotsFilled := rosterSlotsFilled tm + 1,
                               players := players tm @ [playerId]\<rparr>)
                           (savePlayer playerId
                              (pl\<lparr>status := SOLD, soldTo := Some tid,
                                  soldPrice := Some price, soldAt := Some now\<rparr>) s),
                         auctionState\<lparr>recentlySold :=
                           take 10 ((playerId, tid, price, now) # recentlySold auctionState)\<rparr>)
                    | None \<Rightarrow>
                        (let s' = savePlayer playerId (pl\<lparr>status := UNSOLD\<rparr>) s in
                         if isAutoAuction s' \<and> playerId \<notin> set (unsoldPlayers s')
                         then emit ToAdmin
                                (AutoAuctionPlayerUnsold playerId (length (unsoldPlayers s') + 1))
                                (s'\<lparr>unsoldPlayers := unsoldPlayers s' @ [playerId]\<rparr>)
                         else s',
                         auctionState));
                 s2 = s1\<lparr>auctionStateStore := Some (a1
                        \<lparr>isActive := False,
                         currentPlayer := None,
                         currentHighBid := \<lparr>amount = 5, team = None\<rparr>\<rparr>)\<rparr>;
                 s3 = emit ToAll (PlayerSold playerId (map_option fst winningTeam) price) s2;
                 s4 = emit ToAll TeamsStatus s3
             in if isAutoAuction s4 then s4\<lparr>pendingAdvance := pendingAdvance s4 + 1\<rparr> else s4))"

text \<open>One firing of the interval callback of \<open>startTimer\<close>, and one of the delayed
  callback that \<open>handleAutoSold\<close> schedules in auto-run mode.\<close>

definition timerTick :: "time \<Rightarrow> state \<Rightarrow> state" where
  "timerTick now s =
     (if \<not> auctionTimer s then s
      else
        let s1 = s\<lparr>timerValue := timerValue s - 1\<rparr>;
            s2 = emit ToAll (TimerUpdate (timerValue s1)) s1
        in if timerValue s2 \<le> 0 then handleAutoSold now (stopTimer s2) else s2)"

definition advanceFires :: "time \<Rightarrow> state \<Rightarrow> state" where
  "advanceFires now s =
     (if pendingAdvance s = 0 then s
      else processNextPlayerInQueue now (s\<lparr>pendingAdvance := pendingAdvance s - 1\<rparr>))"

section \<open>Control commands\<close>

definition bigscreen_summaryStarting :: "state \<Rightarrow> state" where
  "bigscreen_summaryStarting s =
     emit ToAdmin (TeamSummaryShowing True) (s\<lparr>isTeamSummaryShowing := True\<rparr>)"

definition bigscreen_summaryComplete :: "state \<Rightarrow> state" where
  "bigscreen_summaryComplete s =
     emit ToAdmin (TeamSummaryShowing False) (s\<lparr>isTeamSummaryShowing := False\<rparr>)"

definition admin_pauseAuction :: "socket_id \<Rightarrow> state \<Rightarrow> state" where
  "admin_pauseAuction sid s =
     (if sid \<notin> adminSockets s then s
      else
        (case auctionStateStore s of
           None \<Rightarrow> s
         | Some auctionState \<Rightarrow>
             emit ToAll AuctionPaused
               (stopTimer (s\<lparr>auctionStateStore := Some (auctionState\<lparr>isPaused := True\<rparr>)\<rparr>))))"

definition admin_resumeAuction :: "socket_id \<Rightarrow> state \<Rightarrow> state" where
  "admin_resumeAuction sid s =
     (if sid \<notin> adminSockets s then s
      else
        (case auctionStateStore s of
           None \<Rightarrow> s
         | Some auctionState \<Rightarrow>
             if isPaused auctionState
             then emit ToAll AuctionResumed
                    (startTimer (s\<lparr>auctionStateStore := Some (auctionState\<lparr>isPaused := False\<rparr>)\<rparr>))
             else s))"

text \<open>
  \<open>team.remainingPoints += player.soldPrice\<close>: a \<open>null\<close> price adds 0 in JavaScript.
  The sum is exact here; the source rounds it to a double (see \<open>budget_after_undo\<close>).
  \<open>Bid.deleteMany({ player: player._id })\<close> drops every bid of the lot.
\<close>

definition admin_undoSale :: "socket_id \<Rightarrow> player_id \<Rightarrow> state \<Rightarrow> state" where
  "admin_undoSale sid playerId s =
     (if sid \<notin> adminSockets s then s
      else
        (case findPlayer s playerId of
           None \<Rightarrow> emit (ToSocket sid) (ErrorEvent CannotUndoSale) s
         | Some pl \<Rightarrow>
             if status pl \<noteq> SOLD then emit (ToSocket sid) (ErrorEvent CannotUndoSale) s
             else
               let s1 = (case Option.bind (soldTo pl) (\<lambda>k. map_option (Pair k) (teamStore s k)) of
                           None \<Rightarrow> s
                         | Some (tid, tm) \<Rightarrow>
                             saveTeam tid
                               (tm\<lparr>remainingPoints := remainingPoints tm +
                                      (case soldPrice pl of None \<Rightarrow> 0 | Some x \<Rightarrow> x),
                                   rosterSlotsFilled := rosterSlotsFilled tm - 1,
                                   players := filter (\<lambda>p. p \<noteq> playerId) (players tm)\<rparr>) s);
                   s2 = savePlayer playerId
                          (pl\<lparr>status := UNSOLD, soldTo := None, soldPrice := None, soldAt := None\<rparr>) s1;
                   s3 = s2\<lparr>bidStore := filter (\<lambda>b. bid_player b \<noteq> playerId) (bidStore s2)\<rparr>
               in emit ToAll (SaleUndone playerId) s3))"

definition admin_stopAutoAuction :: "socket_id \<Rightarrow> state \<Rightarrow> state" where
  "admin_stopAutoAuction sid s =
     (if sid \<notin> adminSockets s then s
      else
        let s1 = stopTimer (s\<lparr>isAutoAuction := False\<rparr>)
        in emit ToAdmin
             (AutoAuctionStopped (length (playerQueue s1)) (length (unsoldPlayers s1))) s1)"

section \<open>Building the auto-run queue\<close>

text \<open>
  \<open>playersByPrice\<close> is the object keyed by base price; \<open>addToGroup\<close> is one step of the
  \<open>forEach\<close> that fills it.
\<close>

definition addToGroup :: "(int \<times> 'a list) list \<Rightarrow> int \<Rightarrow> 'a \<Rightarrow> (int \<times> 'a list) list" where
  "addToGroup g price x =
     AList.update price ((case map_of g price of None \<Rightarrow> [] | Some xs \<Rightarrow> xs) @ [x]) g"

text \<open>The players filed under a price; none when the price is no key.\<close>

definition groupOf :: "(int \<times> 'a list) list \<Rightarrow> int \<Rightarrow> 'a list" where
  "groupOf g k = (case map_of g k of None \<Rightarrow> [] | Some xs \<Rightarrow> xs)"

definition playersByPrice ::
  "(player_id \<times> player) list \<Rightarrow> (int \<times> (player_id \<times> player) list) list" where
  "playersByPrice availablePlayers =
     foldl (\<lambda>g p. addToGroup g (basePrice (snd p)) p) [] availablePlayers"

definition sortedPrices :: "(int \<times> 'a) list \<Rightarrow> int list" where
  \<comment> \<open>\<open>Object.keys(playersByPrice).map(Number).sort((a, b) => b - a)\<close>\<close>
  "sortedPrices g = sort_key uminus (map fst g)"

text \<open>
  The Fisher-Yates loop \<open>for (i = length - 1; i > 0; i--)\<close>. \<open>rnd c\<close> stands for the
  \<open>c\<close>-th call of \<open>Math.random()\<close>: \<open>Math.floor(Math.random() * (i + 1))\<close> may be any
  index from 0 to \<open>i\<close> and nothing else, which is what \<open>rnd c mod (i + 1)\<close> ranges over.
  The result carries the number of draws used so far.
\<close>

fun fisherYates :: "(nat \<Rightarrow> nat) \<Rightarrow> nat \<Rightarrow> nat \<Rightarrow> 'a list \<Rightarrow> 'a list \<times> nat" where
  "fisherYates rnd c 0 xs = (xs, c)"
| "fisherYates rnd c (Suc k) xs =
     (let i = Suc k;
          j = rnd c mod (i + 1)
      in fisherYates rnd (c + 1) k (xs[i := xs ! j, j := xs ! i]))"

text \<open>
  The loop over \<open>sortedPrices\<close>; \<open>None\<close> is the TypeError of \<open>playersAtPrice.length\<close> on a
  price that is no key of the object.
\<close>

fun shuffleGroups ::
  "(nat \<Rightarrow> nat) \<Rightarrow> nat \<Rightarrow> (int \<times> 'a list) list \<Rightarrow> int list \<Rightarrow> 'a list \<Rightarrow> 'a list option" where
  "shuffleGroups rnd c g [] shuffledPlayers = Some shuffledPlayers"
| "shuffleGroups rnd c g (price # rest) shuffledPlayers =
     (case map_of g price of
        None \<Rightarrow> None
      | Some playersAtPrice \<Rightarrow>
          (case fisherYates rnd c (length playersAtPrice - 1) playersAtPrice of
             (shuffled, c') \<Rightarrow> shuffleGroups rnd c' g rest (shuffledPlayers @ shuffled)))"

definition buildQueue ::
  "(nat \<Rightarrow> nat) \<Rightarrow> (player_id \<times> player) list \<Rightarrow> (player_id \<times> player) list option" where
  "buildQueue rnd availablePlayers =
     (let g = playersByPrice availablePlayers
      in shuffleGroups rnd 0 g (sortedPrices g) [])"

definition availablePlayers :: "state \<Rightarrow> (player_id \<times> player) list" where
  \<comment> \<open>\<open>Player.find({ status: { $ne: 'SOLD' } })\<close>\<close>
  "availablePlayers s = filter (\<lambda>p. status (snd p) \<noteq> SOLD) (playerStore s)"

definition admin_startAutoAuction :: "(nat \<Rightarrow> nat) \<Rightarrow> socket_id \<Rightarrow> time \<Rightarrow> state \<Rightarrow> state" where
  "admin_startAutoAuction rnd sid now s =
     (if sid \<notin> adminSockets s then emit (ToSocket sid) (ErrorEvent Unauthorized) s
      else if length (availablePlayers s) = 0
      then emit (ToSocket sid) (ErrorEvent NoPlayersAvailable) s
      else
        (case buildQueue rnd (availablePlayers s) of
           None \<Rightarrow> emit (ToSocket sid) (ErrorEvent FailedToStartAutoAuction) s
         | Some shuffledPlayers \<Rightarrow>
             let s1 = s\<lparr>playerQueue := map fst shuffledPlayers,
                        unsoldPlayers := [],
                        isAutoAuction := True\<rparr>;
                 s2 = emit ToAdmin
                        (AutoAuctionStarted (length (playerQueue s1)) (length (playerQueue s1))) s1
             in processNextPlayerInQueue now s2))"

section \<open>Connections\<close>

text \<open>
  \<open>team:login\<close>: \<open>found\<close> is the \<open>_id\<close> of the team \<open>Team.findOne({ teamId })\<close> returns and
  \<open>isValidPin\<close> the result of \<open>team.comparePin(pin)\<close>; both are computed by the Team
  model. \<open>admin:login\<close>: \<open>passwordOk\<close> is the result of the password comparison.
  \<open>sendAuctionState\<close> sends the caller a snapshot, of which the event keeps the timer
  value.
\<close>

definition sendAuctionState :: "socket_id \<Rightarrow> state \<Rightarrow> state" where
  "sendAuctionState sid s = emit (ToSocket sid) (AuctionStateEvent (timerValue s)) s"

definition team_login :: "socket_id \<Rightarrow> team_id option \<Rightarrow> bool \<Rightarrow> time \<Rightarrow> state \<Rightarrow> state" where
  "team_login sid found isValidPin now s =
     (case Option.bind found (\<lambda>k. map_option (Pair k) (teamStore s k)) of
        None \<Rightarrow> emit (ToSocket sid) AuthError s
      | Some (tid, tm) \<Rightarrow>
          if \<not> isValidPin then emit (ToSocket sid) AuthError s
          else
            let s1 = saveTeam tid (tm\<lparr>isOnline := True, lastActive := Some now\<rparr>) s;
                s2 = s1\<lparr>connectedTeams := (connectedTeams s1)(sid \<mapsto> tid)\<rparr>;
                s3 = emit (ToSocket sid) AuthSuccess s2
            in emit ToAll TeamsStatus s3)"

definition admin_login :: "socket_id \<Rightarrow> bool \<Rightarrow> state \<Rightarrow> state" where
  "admin_login sid passwordOk s =
     (if passwordOk
      then sendAuctionState sid
             (emit (ToSocket sid) AuthSuccess (s\<lparr>adminSockets := insert sid (adminSockets s)\<rparr>))
      else emit (ToSocket sid) AuthError s)"

definition bigscreen_connect :: "socket_id \<Rightarrow> state \<Rightarrow> state" where
  "bigscreen_connect sid s =
     sendAuctionState sid
       (emit (ToSocket sid) Connected (s\<lparr>bigScreenSockets := insert sid (bigScreenSockets s)\<rparr>))"

definition admin_getAutoAuctionStatus :: "socket_id \<Rightarrow> state \<Rightarrow> state" where
  "admin_getAutoAuctionStatus sid s =
     (if sid \<notin> adminSockets s then s
      else emit (ToSocket sid)
             (AutoAuctionStatus (isAutoAuction s) (length (playerQueue s))
                (length (unsoldPlayers s))
                (length (playerQueue s) + length (unsoldPlayers s))) s)"

definition disconnect :: "socket_id \<Rightarrow> time \<Rightarrow> state \<Rightarrow> state" where
  "disconnect sid now s =
     (let s1 = (case connectedTeams s sid of
                  None \<Rightarrow> s
                | Some tid \<Rightarrow>
                    let s' = (case teamStore s tid of
                                None \<Rightarrow> s
                              | Some tm \<Rightarrow>
                                  saveTeam tid (tm\<lparr>isOnline := False, lastActive := Some now\<rparr>) s)
                    in emit ToAll TeamsStatus
                         (s'\<lparr>connectedTeams := (connectedTeams s')(sid := None)\<rparr>))
      in s1\<lparr>adminSockets := adminSockets s1 - {sid},
            bigScreenSockets := bigScreenSockets s1 - {sid}\<rparr>)"

section \<open>The engine as a transition system\<close>

datatype command =
    TeamLogin socket_id "team_id option" bool
  | AdminLogin socket_id bool
  | BigscreenConnect socket_id
  | Disconnect socket_id
  | SummaryStarting
  | SummaryComplete
  | BidPlace socket_id int
  | StartAuction socket_id player_id
  | PauseAuction socket_id
  | ResumeAuction socket_id
  | UndoSale socket_id player_id
  | StartAutoAuction "nat \<Rightarrow> nat" socket_id
  | StopAutoAuction socket_id
  | GetAutoAuctionStatus socket_id
  | TimerTick
  | AdvanceFires

fun step :: "time \<Rightarrow> command \<Rightarrow> state \<Rightarrow> state" where
  "step now (TeamLogin sid found ok) s = team_login sid found ok now s"
| "step now (AdminLogin sid ok) s = admin_login sid ok s"
| "step now (BigscreenConnect sid) s = bigscreen_connect sid s"
| "step now (Disconnect sid) s = disconnect sid now s"
| "step now SummaryStarting s = bigscreen_summaryStarting s"
| "step now SummaryComplete s = bigscreen_summaryComplete s"
| "step now (BidPlace sid amt) s = bid_place sid amt now s"
| "step now (StartAuction sid playerId) s = admin_startAuction sid playerId now s"
| "step now (PauseAuction sid) s = admin_pauseAuction sid s"
| "step now (ResumeAuction sid) s = admin_resumeAuction sid s"
| "step now (UndoSale sid playerId) s = admin_undoSale sid playerId s"
| "step now (StartAutoAuction rnd sid) s = admin_startAutoAuction rnd sid now s"
| "step now (StopAutoAuction sid) s = admin_stopAutoAuction sid s"
| "step now (GetAutoAuctionStatus sid) s = admin_getAutoAuctionStatus sid s"
| "step now TimerTick s = timerTick now s"
| "step now AdvanceFires s = advanceFires now s"

text \<open>A run: the commands in their order of arrival, each with the time it arrives at.\<close>

fun run :: "(time \<times> command) list \<Rightarrow> state \<Rightarrow> state" where
  "run [] s = s"
| "run ((now, c) # cs) s = run cs (step now c s)"

section \<open>Number arithmetic of the source\<close>









section \<open>The bid rules as the specification words them\<close>

text \<open>
  Section 4.2 of the specification lists six failures of \<open>placeBid\<close>, checked in this
  order. \<open>spec_placeBid\<close> follows that wording over the same state: the bidder is the team
  the connection is logged in as, the base price is that of the current lot, the budget
  is the bidder's \<open>remainingPoints\<close>; a rule about a record that does not exist does not
  fire. \<open>None\<close> means that the bid is accepted.
\<close>

datatype spec_bid_error =
    SpecNotAuthenticated
  | SpecAuctionInactive
  | SpecBelowMinimum
  | SpecNotHigherThanCurrent
  | SpecInsufficientBudget
  | SpecAlreadyHighBidder

definition spec_placeBid :: "socket_id \<Rightarrow> int \<Rightarrow> state \<Rightarrow> spec_bid_error option" where
  "spec_placeBid sid amt s =
     (case connectedTeams s sid of
        None \<Rightarrow> Some SpecNotAuthenticated
      | Some bidder \<Rightarrow>
        (case auctionStateStore s of
           None \<Rightarrow> Some SpecAuctionInactive
         | Some a \<Rightarrow>
             if \<not> isActive a \<or> isPaused a then Some SpecAuctionInactive
             else if team (currentHighBid a) = None \<and>
                     (case Option.bind (currentPlayer a) (findPlayer s) of
                        None \<Rightarrow> False | Some lot \<Rightarrow> amt < basePrice lot)
               then Some SpecBelowMinimum
             else if team (currentHighBid a) \<noteq> None \<and> amt \<le> amount (currentHighBid a)
               then Some SpecNotHigherThanCurrent
             else if (case teamStore s bidder of
                        None \<Rightarrow> False | Some b \<Rightarrow> amt > remainingPoints b)
               then Some SpecInsufficientBudget
             else if team (currentHighBid a) = Some bidder then Some SpecAlreadyHighBidder
             else None))"

text \<open>How an outcome of the handler reads as an outcome of the specification. The two
  messages "Player not in auction" and "Failed to place bid" are none of the six.\<close>

definition outcome_matches ::
  "bid_error + (team_id \<times> player_id \<times> auction_state) \<Rightarrow> spec_bid_error option \<Rightarrow> bool" where
  "outcome_matches r v =
     (case r of
        Inr _ \<Rightarrow> v = None
      | Inl err \<Rightarrow>
          (case err of
             NotAuthenticated \<Rightarrow> v = Some SpecNotAuthenticated
           | AuctionNotActive \<Rightarrow> v = Some SpecAuctionInactive
           | PlayerNotInAuction \<Rightarrow> False
           | BidMustBeAtLeast _ \<Rightarrow> v = Some SpecBelowMinimum
           | BidMustBeHigherThan _ \<Rightarrow> v = Some SpecNotHigherThanCurrent
           | InsufficientPoints _ \<Rightarrow> v = Some SpecInsufficientBudget
           | AlreadyHighestBidder \<Rightarrow> v = Some SpecAlreadyHighBidder
           | FailedToPlaceBid \<Rightarrow> False))"

text \<open>
  The records the handler relies on: while a lot is open for bids its Player document
  exists with status \<open>IN_AUCTION\<close>, the opening amount is its base price as long as nobody
  has bid, and the team behind the connection exists.
\<close>

definition lot_open_consistent :: "socket_id \<Rightarrow> state \<Rightarrow> bool" where
  "lot_open_consistent sid s =
     ((case auctionStateStore s of
         None \<Rightarrow> True
       | Some a \<Rightarrow>
           \<not> isActive a \<or> isPaused a \<or>
           (case Option.bind (currentPlayer a) (findPlayer s) of
              None \<Rightarrow> False
            | Some lot \<Rightarrow>
                status lot = IN_AUCTION \<and>
                (team (currentHighBid a) \<noteq> None \<or> amount (currentHighBid a) = basePrice lot)))
      \<and> (case connectedTeams s sid of
           None \<Rightarrow> True
         | Some bidder \<Rightarrow> teamStore s bidder \<noteq> None))"

section \<open>Well-formed engine states\<close>


section \<open>Example states\<close>

definition exampleTeams :: "team_id \<rightharpoonup> team" where
  "exampleTeams =
     [1 \<mapsto> \<lparr>remainingPoints = 50, rosterSlotsFilled = 0, players = [],
             isOnline = True, lastActive = None\<rparr>,
      2 \<mapsto> \<lparr>remainingPoints = 30, rosterSlotsFilled = 0, players = [],
             isOnline = True, lastActive = None\<rparr>]"

definition examplePlayers :: "(player_id \<times> player) list" where
  "examplePlayers =
     [(1, \<lparr>basePrice = 10, status = UNSOLD, soldTo = None, soldPrice = None, soldAt = None\<rparr>),
      (2, \<lparr>basePrice = 20, status = UNSOLD, soldTo = None, soldPrice = None, soldAt = None\<rparr>)]"

text \<open>Two teams logged in on sockets 11 and 12, one admin on socket 99, no lot started
  yet, a countdown of one tick.\<close>

definition exampleIdle :: state where
  "exampleIdle =
     \<lparr>playerStore = examplePlayers, teamStore = exampleTeams, bidStore = [],
      auctionStateStore = None, auctionTimer = False, timerValue = 20, playerQueue = [],
      isAutoAuction = False, unsoldPlayers = [], isTeamSummaryShowing = False,
      connectedTeams = [11 \<mapsto> 1, 12 \<mapsto> 2], adminSockets = {99},
      bigScreenSockets = {}, pendingAdvance = 0,
      outbox = [], envTimerDuration = Some 1\<rparr>"

text \<open>Lot 1 is the current lot of an active auction without bids, but its Player
  document says \<open>UNSOLD\<close>.\<close>

definition exampleStaleLot :: state where
  "exampleStaleLot =
     exampleIdle\<lparr>auctionStateStore := Some
       \<lparr>currentPlayer = Some 1, currentHighBid = \<lparr>amount = 10, team = None\<rparr>,
        isActive = True, isPaused = False, lastBidAt = None, auctionStartedAt = Some 0,
        recentlySold = []\<rparr>\<rparr>"


text \<open>Lot 1 is open, team 1 leads at 10.\<close>

definition exampleLeading :: state where
  "exampleLeading =
     exampleIdle\<lparr>playerStore :=
         [(1, \<lparr>basePrice = 10, status = IN_AUCTION, soldTo = None, soldPrice = None, soldAt = None\<rparr>),
          (2, \<lparr>basePrice = 20, status = UNSOLD, soldTo = None, soldPrice = None, soldAt = None\<rparr>)],
       auctionStateStore := Some
         \<lparr>currentPlayer = Some 1, currentHighBid = \<lparr>amount = 10, team = Some 1\<rparr>,
          isActive = True, isPaused = False, lastBidAt = Some 1, auctionStartedAt = Some 0,
          recentlySold = []\<rparr>,
       bidStore := [\<lparr>bid_player = 1, bid_team = 1, bid_amount = 10, isWinning = False\<rparr>],
       auctionTimer := True, timerValue := 10\<rparr>"

text \<open>Auto-run is on, lot 1 is open without a bid, lot 2 waits in the queue.\<close>

definition exampleNoBids :: state where
  "exampleNoBids =
     exampleIdle\<lparr>playerStore :=
         [(1, \<lparr>basePrice = 10, status = IN_AUCTION, soldTo = None, soldPrice = None, soldAt = None\<rparr>),
          (2, \<lparr>basePrice = 20, status = UNSOLD, soldTo = None, soldPrice = None, soldAt = None\<rparr>)],
       auctionStateStore := Some
         \<lparr>currentPlayer = Some 1, currentHighBid = \<lparr>amount = 10, team = None\<rparr>,
          isActive = True, isPaused = False, lastBidAt = None, auctionStartedAt = Some 0,
          recentlySold = []\<rparr>,
       auctionTimer := True, timerValue := 1, isAutoAuction := True, playerQueue := [2]\<rparr>"


text \<open>The results screen is showing.\<close>

definition exampleSummaryShowing :: state where
  "exampleSummaryShowing = exampleIdle\<lparr>isTeamSummaryShowing := True\<rparr>"

section \<open>Basic facts\<close>

lemma startAuctionForPlayer_started:
  assumes "findPlayer s pid = Some lot" "status lot \<noteq> SOLD"
  shows "findPlayer (startAuctionForPlayer now pid s) pid = Some (lot\<lparr>status := IN_AUCTION\<rparr>)"
    and "auctionStateStore (startAuctionForPlayer now pid s) =
           Some ((case auctionStateStore s of None \<Rightarrow> newAuctionState | Some a \<Rightarrow> a)
                   \<lparr>currentPlayer := Some pid, isActive := True, isPaused := False,
                    currentHighBid := \<lparr>amount = basePrice lot, team = None\<rparr>,
                    auctionStartedAt := Some now\<rparr>)"
    and "teamStore (startAuctionForPlayer now pid s) = teamStore s"
    and "connectedTeams (startAuctionForPlayer now pid s) = connectedTeams s"
    and "auctionTimer (startAuctionForPlayer now pid s)"
  using assms
  by (simp_all add: startAuctionForPlayer_def Let_def startTimer_def stopTimer_def emit_def
        savePlayer_def findPlayer_def update_conv')

section \<open>The branches of settlement\<close>

lemma stopTimer_eq: "stopTimer s = s\<lparr>auctionTimer := False\<rparr>"
  by (cases s) (simp add: stopTimer_def)

lemma populateTeam_timer: "populateTeam (s\<lparr>auctionTimer := b\<rparr>) a = populateTeam s a"
  by (simp add: populateTeam_def split: option.splits)

lemma handleAutoSold_skip:
  assumes "(case auctionStateStore s of None \<Rightarrow> True
            | Some a \<Rightarrow> Option.bind (currentPlayer a) (findPlayer s) = None)"
  shows "handleAutoSold now s = stopTimer s"
  using assms
  by (auto simp: handleAutoSold_def stopTimer_eq findPlayer_def Let_def split: option.splits Option.bind_splits)

lemma handleAutoSold_unsold:
  assumes "auctionStateStore s = Some a" "currentPlayer a = Some pid" "findPlayer s pid = Some pl"
      and "populateTeam s a = None"
  shows "handleAutoSold now s =
     (let s1 = savePlayer pid (pl\<lparr>status := UNSOLD\<rparr>) (stopTimer s);
          s2 = (if isAutoAuction s \<and> pid \<notin> set (unsoldPlayers s)
                then emit ToAdmin (AutoAuctionPlayerUnsold pid (length (unsoldPlayers s) + 1))
                       (s1\<lparr>unsoldPlayers := unsoldPlayers s @ [pid]\<rparr>)
                else s1);
          s3 = s2\<lparr>auctionStateStore := Some (a\<lparr>isActive := False, currentPlayer := None,
                      currentHighBid := \<lparr>amount = 5, team = None\<rparr>\<rparr>)\<rparr>;
          s4 = emit ToAll TeamsStatus
                 (emit ToAll (PlayerSold pid None (amount (currentHighBid a))) s3)
      in if isAutoAuction s then s4\<lparr>pendingAdvance := pendingAdvance s + 1\<rparr> else s4)"
  using assms
  by (simp add: handleAutoSold_def stopTimer_eq findPlayer_def populateTeam_timer Let_def
        savePlayer_def emit_def)

lemma handleAutoSold_sold:
  assumes "auctionStateStore s = Some a" "currentPlayer a = Some pid" "findPlayer s pid = Some pl"
      and "populateTeam s a = Some (tid, tm)"
  shows "handleAutoSold now s =
     (let price = amount (currentHighBid a);
          s1 = savePlayer pid (pl\<lparr>status := SOLD, soldTo := Some tid,
                                  soldPrice := Some price, soldAt := Some now\<rparr>) (stopTimer s);
          s2 = saveTeam tid (tm\<lparr>remainingPoints := remainingPoints tm - price,
                               rosterSlotsFilled := rosterSlotsFilled tm + 1,
                               players := players tm @ [pid]\<rparr>) s1;
          s3 = s2\<lparr>auctionStateStore := Some (a\<lparr>recentlySold := take 10 ((pid, tid, price, now) # recentlySold a),
                      isActive := False, currentPlayer := None,
                      currentHighBid := \<lparr>amount = 5, team = None\<rparr>\<rparr>)\<rparr>;
          s4 = emit ToAll TeamsStatus (emit ToAll (PlayerSold pid (Some tid) price) s3)
      in if isAutoAuction s then s4\<lparr>pendingAdvance := pendingAdvance s + 1\<rparr> else s4)"
  using assms
  by (simp add: handleAutoSold_def stopTimer_eq findPlayer_def populateTeam_timer Let_def
        savePlayer_def saveTeam_def emit_def)


lemma handleAutoSold_cases:
  obtains (skip) "handleAutoSold now s = stopTimer s"
      "(case auctionStateStore s of None \<Rightarrow> True
        | Some a \<Rightarrow> Option.bind (currentPlayer a) (findPlayer s) = None)"
  | (unsold) a pid pl where "auctionStateStore s = Some a" "currentPlayer a = Some pid"
      "findPlayer s pid = Some pl" "populateTeam s a = None"
  | (sold) a pid pl tid tm where "auctionStateStore s = Some a" "currentPlayer a = Some pid"
      "findPlayer s pid = Some pl" "populateTeam s a = Some (tid, tm)"
proof (cases "(case auctionStateStore s of None \<Rightarrow> True
        | Some a \<Rightarrow> Option.bind (currentPlayer a) (findPlayer s) = None)")
  case True
  then show ?thesis using skip handleAutoSold_skip by blast
next
  case False
  then obtain a pid pl where *: "auctionStateStore s = Some a" "currentPlayer a = Some pid"
      "findPlayer s pid = Some pl"
    by (auto split: option.splits Option.bind_splits)
  show ?thesis
  proof (cases "populateTeam s a")
    case None
    with * show ?thesis using unsold by blast
  next
    case (Some p)
    with * show ?thesis using sold by (cases p) blast
  qed
qed

lemma handleAutoSold_settled:
  assumes "auctionStateStore s = Some a" "currentPlayer a = Some pid" "findPlayer s pid = Some pl"
  shows "\<exists>a'. auctionStateStore (handleAutoSold now s) = Some a' \<and> \<not> isActive a' \<and>
           currentPlayer a' = None \<and> currentHighBid a' = \<lparr>amount = 5, team = None\<rparr>"
    and "\<not> auctionTimer (handleAutoSold now s)"
proof -
  show "\<exists>a'. auctionStateStore (handleAutoSold now s) = Some a' \<and> \<not> isActive a' \<and>
           currentPlayer a' = None \<and> currentHighBid a' = \<lparr>amount = 5, team = None\<rparr>"
  proof (cases "populateTeam s a")
    case None
    show ?thesis
      by (simp add: handleAutoSold_unsold [OF assms None] Let_def emit_def savePlayer_def stopTimer_eq)
  next
    case (Some p)
    obtain tid tm where "p = (tid, tm)" by (cases p)
    with Some have "populateTeam s a = Some (tid, tm)" by simp
    then show ?thesis
      by (simp add: handleAutoSold_sold [OF assms] Let_def emit_def savePlayer_def saveTeam_def stopTimer_eq)
  qed
  show "\<not> auctionTimer (handleAutoSold now s)"
  proof (cases "populateTeam s a")
    case None
    show ?thesis
      by (simp add: handleAutoSold_unsold [OF assms None] Let_def emit_def savePlayer_def stopTimer_eq)
  next
    case (Some p)
    obtain tid tm where "p = (tid, tm)" by (cases p)
    with Some have "populateTeam s a = Some (tid, tm)" by simp
    then show ?thesis
      by (simp add: handleAutoSold_sold [OF assms] Let_def emit_def savePlayer_def saveTeam_def stopTimer_eq)
  qed
qed

lemma handleAutoSold_unsoldPlayers:
  "unsoldPlayers (handleAutoSold now s) = unsoldPlayers s \<or>
   (\<exists>pid. pid \<notin> set (unsoldPlayers s) \<and> unsoldPlayers (handleAutoSold now s) = unsoldPlayers s @ [pid])"
proof (cases rule: handleAutoSold_cases [of now s])
  case skip
  then show ?thesis by (simp add: stopTimer_eq)
next
  case (unsold a pid pl)
  then show ?thesis
    by (simp add: handleAutoSold_unsold [OF unsold] Let_def emit_def savePlayer_def stopTimer_eq)
next
  case (sold a pid pl tid tm)
  then show ?thesis
    by (simp add: handleAutoSold_sold [OF sold] Let_def emit_def savePlayer_def saveTeam_def stopTimer_eq)
qed

lemma handleAutoSold_distinct:
  "distinct (unsoldPlayers s) \<Longrightarrow> distinct (unsoldPlayers (handleAutoSold now s))"
  using handleAutoSold_unsoldPlayers [of now s] by auto

lemma handleAutoSold_no_bidder:
  assumes "auctionStateStore s = Some a" "currentPlayer a = Some pid" "findPlayer s pid = Some pl"
      and "team (currentHighBid a) = None"
  shows "findPlayer (handleAutoSold now s) pid = Some (pl\<lparr>status := UNSOLD\<rparr>)"
    and "unsoldPlayers (handleAutoSold now s) =
           (if isAutoAuction s \<and> pid \<notin> set (unsoldPlayers s)
            then unsoldPlayers s @ [pid] else unsoldPlayers s)"
    and "teamStore (handleAutoSold now s) = teamStore s"
proof -
  from assms(4) have n: "populateTeam s a = None" by (simp add: populateTeam_def)
  show "findPlayer (handleAutoSold now s) pid = Some (pl\<lparr>status := UNSOLD\<rparr>)"
    by (simp add: handleAutoSold_unsold [OF assms(1-3) n] Let_def emit_def savePlayer_def
          stopTimer_eq findPlayer_def update_conv')
  show "unsoldPlayers (handleAutoSold now s) =
           (if isAutoAuction s \<and> pid \<notin> set (unsoldPlayers s)
            then unsoldPlayers s @ [pid] else unsoldPlayers s)"
    by (simp add: handleAutoSold_unsold [OF assms(1-3) n] Let_def emit_def savePlayer_def
          stopTimer_eq)
  show "teamStore (handleAutoSold now s) = teamStore s"
    by (simp add: handleAutoSold_unsold [OF assms(1-3) n] Let_def emit_def savePlayer_def
          stopTimer_eq)
qed

section \<open>Order of the bid checks\<close>

lemma bid_refines_spec:
  assumes "lot_open_consistent sid s"
  shows "outcome_matches (bid_validate sid amt s) (spec_placeBid sid amt s)"
proof (cases "connectedTeams s sid")
  case None
  then show ?thesis by (simp add: outcome_matches_def bid_validate_def spec_placeBid_def)
next
  case (Some bidder)
  note bidder = this
  show ?thesis
  proof (cases "auctionStateStore s")
    case None
    with bidder show ?thesis by (simp add: outcome_matches_def bid_validate_def spec_placeBid_def)
  next
    case (Some a)
    note a = this
    show ?thesis
    proof (cases "\<not> isActive a \<or> isPaused a")
      case True
      with bidder a show ?thesis
        by (simp add: outcome_matches_def bid_validate_def spec_placeBid_def)
    next
      case False
      with assms bidder a obtain pid lot tm where
        lot: "currentPlayer a = Some pid" "findPlayer s pid = Some lot" "status lot = IN_AUCTION"
          "team (currentHighBid a) \<noteq> None \<or> amount (currentHighBid a) = basePrice lot"
        and tm: "teamStore s bidder = Some tm"
        by (auto simp: lot_open_consistent_def split: option.splits Option.bind_splits)
      from False bidder a lot tm show ?thesis
        by (auto simp: outcome_matches_def bid_validate_def spec_placeBid_def Let_def)
    qed
  qed
qed

lemma accepted_iff_spec_accepts:
  assumes "lot_open_consistent sid s"
  shows "\<not> isl (bid_validate sid amt s) \<longleftrightarrow> spec_placeBid sid amt s = None"
  using bid_refines_spec [OF assms, of amt]
  by (cases "bid_validate sid amt s") (auto simp: outcome_matches_def split: bid_error.splits)

lemma tie_rejected:
  assumes "auctionStateStore s = Some a" "team (currentHighBid a) \<noteq> None"
  shows "isl (bid_validate sid (amount (currentHighBid a)) s)"
  using assms by (auto simp: bid_validate_def Let_def split: option.splits)

lemma opening_bid_accepted:
  assumes "findPlayer s pid = Some lot" "status lot \<noteq> SOLD"
      and "connectedTeams s sid = Some tid" "teamStore s tid = Some tm"
      and "basePrice lot \<le> remainingPoints tm"
  shows "\<not> isl (bid_validate sid (basePrice lot) (startAuctionForPlayer now pid s))"
  using assms(3-5)
  by (simp add: bid_validate_def Let_def startAuctionForPlayer_started[OF assms(1,2)])

lemma accepted_bid_effect:
  assumes "bid_validate sid amt s = Inr (tid, pid, a)"
  shows "bidStore (bid_place sid amt now s) =
           bidStore s @ [\<lparr>bid_player = pid, bid_team = tid, bid_amount = amt, isWinning = False\<rparr>]"
    and "auctionStateStore (bid_place sid amt now s) =
           Some (a\<lparr>currentHighBid := \<lparr>amount = amt, team = Some tid\<rparr>, lastBidAt := Some now\<rparr>)"
    and "timerValue (bid_place sid amt now s) = 10"
  using assms by (simp_all add: bid_place_def Let_def emit_def resetTimer_def)

text \<open>
  Claim C1, as the code has it. Provided the current lot's record exists with status
  \<open>IN_AUCTION\<close> and the bidder's team record exists (\<open>lot_open_consistent\<close>), the handler
  applies the six checks of the specification in the specification's order and reports
  the first that fails; the bid is accepted exactly when all six pass, and an accepted
  bid is appended to the ledger, becomes the high bid and resets the countdown to 10. A
  bid equal to the base price is accepted right after the lot was started (given the
  budget covers it), and a bid equal to the current high bid is rejected whenever a
  high bidder exists.
\<close>

theorem bid_checks_in_spec_order:
  "(lot_open_consistent sid s \<longrightarrow>
      outcome_matches (bid_validate sid amt s) (spec_placeBid sid amt s) \<and>
      (\<not> isl (bid_validate sid amt s) \<longleftrightarrow> spec_placeBid sid amt s = None))
   \<and> (bid_validate sid amt s = Inr (tid, pid, a) \<longrightarrow>
        bidStore (bid_place sid amt now s) =
          bidStore s @ [\<lparr>bid_player = pid, bid_team = tid, bid_amount = amt, isWinning = False\<rparr>] \<and>
        auctionStateStore (bid_place sid amt now s) =
          Some (a\<lparr>currentHighBid := \<lparr>amount = amt, team = Some tid\<rparr>, lastBidAt := Some now\<rparr>) \<and>
        timerValue (bid_place sid amt now s) = 10)
   \<and> (findPlayer s pid' = Some lot \<and> status lot \<noteq> SOLD \<and>
        connectedTeams s sid = Some tid' \<and> teamStore s tid' = Some tm \<and>
        basePrice lot \<le> remainingPoints tm \<longrightarrow>
        \<not> isl (bid_validate sid (basePrice lot) (startAuctionForPlayer now pid' s)))
   \<and> (auctionStateStore s = Some a' \<and> team (currentHighBid a') \<noteq> None \<longrightarrow>
        isl (bid_validate sid (amount (currentHighBid a')) s))"
proof (intro conjI impI)
  assume "lot_open_consistent sid s"
  then show "outcome_matches (bid_validate sid amt s) (spec_placeBid sid amt s)"
    and "\<not> isl (bid_validate sid amt s) \<longleftrightarrow> spec_placeBid sid amt s = None"
    by (rule bid_refines_spec, rule accepted_iff_spec_accepts)
next
  assume v: "bid_validate sid amt s = Inr (tid, pid, a)"
  show "bidStore (bid_place sid amt now s) =
          bidStore s @ [\<lparr>bid_player = pid, bid_team = tid, bid_amount = amt, isWinning = False\<rparr>]"
    by (rule accepted_bid_effect(1) [OF v])
  show "auctionStateStore (bid_place sid amt now s) =
          Some (a\<lparr>currentHighBid := \<lparr>amount = amt, team = Some tid\<rparr>, lastBidAt := Some now\<rparr>)"
    by (rule accepted_bid_effect(2) [OF v])
  show "timerValue (bid_place sid amt now s) = 10"
    by (rule accepted_bid_effect(3) [OF v])
next
  assume "findPlayer s pid' = Some lot \<and> status lot \<noteq> SOLD \<and>
        connectedTeams s sid = Some tid' \<and> teamStore s tid' = Some tm \<and>
        basePrice lot \<le> remainingPoints tm"
  then show "\<not> isl (bid_validate sid (basePrice lot) (startAuctionForPlayer now pid' s))"
    using opening_bid_accepted by blast
next
  assume "auctionStateStore s = Some a' \<and> team (currentHighBid a') \<noteq> None"
  then show "isl (bid_validate sid (amount (currentHighBid a')) s)"
    using tie_rejected by blast
qed

theorem bid_checks_in_spec_order_witness:
  "outcome_matches (bid_validate 12 10 exampleLeading) (Some SpecNotHigherThanCurrent)
   \<and> isl (bid_validate 12 10 exampleLeading)
   \<and> \<not> isl (bid_validate 11 10 (startAuctionForPlayer 0 1 exampleIdle))
   \<and> map_option currentHighBid (auctionStateStore (bid_place 12 15 2 exampleLeading)) =
       Some \<lparr>amount = 15, team = Some 2\<rparr>"
proof -
  let ?a = "\<lparr>currentPlayer = Some 1, currentHighBid = \<lparr>amount = 10, team = Some 1\<rparr>,
          isActive = True, isPaused = False, lastBidAt = Some 1, auctionStartedAt = Some 0,
          recentlySold = []\<rparr>"
  let ?lot = "\<lparr>basePrice = 10, status = UNSOLD, soldTo = None, soldPrice = None, soldAt = None\<rparr>"
  let ?tm = "\<lparr>remainingPoints = 50, rosterSlotsFilled = 0, players = [],
             isOnline = True, lastActive = None\<rparr>"
  have cons: "lot_open_consistent 12 exampleLeading"
    by (simp add: lot_open_consistent_def exampleLeading_def exampleIdle_def findPlayer_def
          exampleTeams_def)
  have st: "auctionStateStore exampleLeading = Some ?a \<and> team (currentHighBid ?a) \<noteq> None"
    by (simp add: exampleLeading_def exampleIdle_def)
  have sp: "spec_placeBid 12 10 exampleLeading = Some SpecNotHigherThanCurrent"
    by (simp add: spec_placeBid_def exampleLeading_def exampleIdle_def)
  have acc: "bid_validate 12 15 exampleLeading = Inr (2, 1, ?a)"
    by (simp add: bid_validate_def exampleLeading_def exampleIdle_def findPlayer_def
          exampleTeams_def)
  have op: "findPlayer exampleIdle 1 = Some ?lot \<and> status ?lot \<noteq> SOLD \<and>
        connectedTeams exampleIdle 11 = Some 1 \<and> teamStore exampleIdle 1 = Some ?tm \<and>
        basePrice ?lot \<le> remainingPoints ?tm"
    by (simp add: exampleIdle_def findPlayer_def examplePlayers_def exampleTeams_def)
  note T1 = bid_checks_in_spec_order [where sid = 12 and s = exampleLeading and amt = 10
      and a' = ?a]
  note T2 = bid_checks_in_spec_order [where sid = 12 and s = exampleLeading and amt = 15
      and tid = 2 and pid = 1 and a = ?a and now = 2]
  note T3 = bid_checks_in_spec_order [where sid = 11 and s = exampleIdle and pid' = 1
      and lot = ?lot and tid' = 1 and tm = ?tm and now = 0]
  from T1 cons sp have 1: "outcome_matches (bid_validate 12 10 exampleLeading) (Some SpecNotHigherThanCurrent)"
    by simp
  from T1 st have 2: "isl (bid_validate 12 10 exampleLeading)" by simp
  from T3 op have 3: "\<not> isl (bid_validate 11 10 (startAuctionForPlayer 0 1 exampleIdle))" by simp
  from T2 acc have 4: "map_option currentHighBid (auctionStateStore (bid_place 12 15 2 exampleLeading)) =
       Some \<lparr>amount = 15, team = Some 2\<rparr>" by simp
  from 1 2 3 4 show ?thesis by blast
qed

text \<open>
  Claim C1 as it is worded fails. In \<open>exampleStaleLot\<close> every one of the six checks
  passes (the bidder is logged in, the auction is active, nobody has bid, the amount
  equals the base price and the budget covers it), yet the handler rejects the bid with
  "Player not in auction" and records nothing: the status of the lot's own record is a
  check of its own, made between the second and the third of the six.
\<close>

theorem six_checks_pass_yet_bid_rejected:
  "spec_placeBid 11 10 exampleStaleLot = None
   \<and> bid_validate 11 10 exampleStaleLot = Inl PlayerNotInAuction
   \<and> bidStore (bid_place 11 10 1 exampleStaleLot) = bidStore exampleStaleLot"
  by (simp add: spec_placeBid_def bid_validate_def bid_place_def emit_def exampleStaleLot_def
        exampleIdle_def findPlayer_def examplePlayers_def exampleTeams_def)

section \<open>Rejected bids\<close>

text \<open>
  Claim C9. A bid that fails any validation rule leaves every part of the shared state as
  it was: no Bid record is appended, the auction state (high bid, \<open>lastBidAt\<close>,
  \<open>isActive\<close>) is not written, no team budget changes and the countdown is not reset. The
  only effect is one \<open>bid:error\<close> event, sent to the socket the bid came from.
\<close>

theorem rejected_bid_changes_nothing:
  assumes "bid_validate sid amt s = Inl err"
  shows "bid_place sid amt now s = s\<lparr>outbox := outbox s @ [(ToSocket sid, BidError err)]\<rparr>
       \<and> bidStore (bid_place sid amt now s) = bidStore s
       \<and> auctionStateStore (bid_place sid amt now s) = auctionStateStore s
       \<and> teamStore (bid_place sid amt now s) = teamStore s
       \<and> timerValue (bid_place sid amt now s) = timerValue s
       \<and> auctionTimer (bid_place sid amt now s) = auctionTimer s"
  using assms by (simp add: bid_place_def emit_def)

theorem rejected_bid_changes_nothing_witness:
  "bid_place 11 10 0 exampleIdle =
     exampleIdle\<lparr>outbox := outbox exampleIdle @ [(ToSocket 11, BidError AuctionNotActive)]\<rparr>"
proof -
  have "bid_validate 11 10 exampleIdle = Inl AuctionNotActive"
    by (simp add: bid_validate_def exampleIdle_def)
  from rejected_bid_changes_nothing [OF this] show ?thesis by simp
qed

text \<open>
  Claim C10. Beyond the six failures the specification lists there is a seventh: for a
  logged-in bidder, with the auction active and not paused, the bid is rejected with
  "Player not in auction" when the current lot's record cannot be found or its status is
  not \<open>IN_AUCTION\<close>; the state does not change but for that one event to the bidder.
\<close>

theorem bid_on_lot_not_in_auction_rejected:
  assumes "connectedTeams s sid = Some tid"
      and "auctionStateStore s = Some a"
      and "isActive a" and "\<not> isPaused a"
      and "\<forall>lot. Option.bind (currentPlayer a) (findPlayer s) = Some lot \<longrightarrow> status lot \<noteq> IN_AUCTION"
  shows "bid_validate sid amt s = Inl PlayerNotInAuction
       \<and> bid_place sid amt now s = s\<lparr>outbox := outbox s @ [(ToSocket sid, BidError PlayerNotInAuction)]\<rparr>"
  using assms by (auto simp: bid_validate_def bid_place_def emit_def split: option.splits)

theorem bid_on_lot_not_in_auction_rejected_witness:
  "bid_place 11 10 5 exampleStaleLot =
     exampleStaleLot\<lparr>outbox := outbox exampleStaleLot @ [(ToSocket 11, BidError PlayerNotInAuction)]\<rparr>"
proof -
  let ?a = "\<lparr>currentPlayer = Some 1, currentHighBid = \<lparr>amount = 10, team = None\<rparr>,
        isActive = True, isPaused = False, lastBidAt = None, auctionStartedAt = Some 0,
        recentlySold = []\<rparr>"
  have 1: "connectedTeams exampleStaleLot 11 = Some 1"
    by (simp add: exampleStaleLot_def exampleIdle_def)
  have 2: "auctionStateStore exampleStaleLot = Some ?a"
    by (simp add: exampleStaleLot_def exampleIdle_def)
  have 3: "isActive ?a" "\<not> isPaused ?a" by simp_all
  have 4: "\<forall>lot. Option.bind (currentPlayer ?a) (findPlayer exampleStaleLot) = Some lot \<longrightarrow> status lot \<noteq> IN_AUCTION"
    by (simp add: exampleStaleLot_def exampleIdle_def findPlayer_def examplePlayers_def)
  from bid_on_lot_not_in_auction_rejected [OF 1 2 3 4] show ?thesis by simp
qed

section \<open>Settlement\<close>

text \<open>
  Claim C5. When settlement resolves a lot (the auction state names a current lot whose
  record exists), then after either branch the auction state has \<open>isActive = false\<close>, no
  current lot and the sentinel high bid \<open>{amount: 5, team: null}\<close>, and the countdown is
  stopped. With no high bidder the lot becomes \<open>UNSOLD\<close>, and in auto-run mode its id is
  appended to the unsold list unless it is there already. No settlement, whatever the
  state, makes a duplicate-free unsold list contain a duplicate.
\<close>

theorem settlement_resets_and_marks_unsold:
  "(auctionStateStore s = Some a \<and> currentPlayer a = Some pid \<and> findPlayer s pid = Some pl \<longrightarrow>
      (\<exists>a'. auctionStateStore (handleAutoSold now s) = Some a' \<and> \<not> isActive a' \<and>
            currentPlayer a' = None \<and> currentHighBid a' = \<lparr>amount = 5, team = None\<rparr>) \<and>
      \<not> auctionTimer (handleAutoSold now s) \<and>
      (team (currentHighBid a) = None \<longrightarrow>
         findPlayer (handleAutoSold now s) pid = Some (pl\<lparr>status := UNSOLD\<rparr>) \<and>
         unsoldPlayers (handleAutoSold now s) =
           (if isAutoAuction s \<and> pid \<notin> set (unsoldPlayers s)
            then unsoldPlayers s @ [pid] else unsoldPlayers s)))
   \<and> (distinct (unsoldPlayers s) \<longrightarrow> distinct (unsoldPlayers (handleAutoSold now s)))"
proof (intro conjI impI)
  assume h: "auctionStateStore s = Some a \<and> currentPlayer a = Some pid \<and> findPlayer s pid = Some pl"
  then have h': "auctionStateStore s = Some a" "currentPlayer a = Some pid" "findPlayer s pid = Some pl"
    by simp_all
  show "\<exists>a'. auctionStateStore (handleAutoSold now s) = Some a' \<and> \<not> isActive a' \<and>
            currentPlayer a' = None \<and> currentHighBid a' = \<lparr>amount = 5, team = None\<rparr>"
    by (rule handleAutoSold_settled(1) [OF h'])
  show "\<not> auctionTimer (handleAutoSold now s)"
    by (rule handleAutoSold_settled(2) [OF h'])
  assume n: "team (currentHighBid a) = None"
  show "findPlayer (handleAutoSold now s) pid = Some (pl\<lparr>status := UNSOLD\<rparr>)"
    by (rule handleAutoSold_no_bidder(1) [OF h' n])
  show "unsoldPlayers (handleAutoSold now s) =
           (if isAutoAuction s \<and> pid \<notin> set (unsoldPlayers s)
            then unsoldPlayers s @ [pid] else unsoldPlayers s)"
    by (rule handleAutoSold_no_bidder(2) [OF h' n])
next
  assume "distinct (unsoldPlayers s)"
  then show "distinct (unsoldPlayers (handleAutoSold now s))"
    by (rule handleAutoSold_distinct)
qed

theorem settlement_resets_and_marks_unsold_witness:
  "map_option status (findPlayer (handleAutoSold 3 exampleNoBids) 1) = Some UNSOLD
   \<and> unsoldPlayers (handleAutoSold 3 exampleNoBids) = [1]
   \<and> unsoldPlayers (handleAutoSold 4 (handleAutoSold 3 exampleNoBids)) = [1]
   \<and> \<not> auctionTimer (handleAutoSold 3 exampleNoBids)
   \<and> distinct (unsoldPlayers (handleAutoSold 3 exampleNoBids))"
proof -
  let ?a = "\<lparr>currentPlayer = Some 1, currentHighBid = \<lparr>amount = 10, team = None\<rparr>,
          isActive = True, isPaused = False, lastBidAt = None, auctionStartedAt = Some 0,
          recentlySold = []\<rparr>"
  let ?pl = "\<lparr>basePrice = 10, status = IN_AUCTION, soldTo = None, soldPrice = None, soldAt = None\<rparr>"
  have h: "auctionStateStore exampleNoBids = Some ?a \<and> currentPlayer ?a = Some 1 \<and>
           findPlayer exampleNoBids 1 = Some ?pl"
    and n: "team (currentHighBid ?a) = None"
    and d: "distinct (unsoldPlayers exampleNoBids)"
    and u: "unsoldPlayers exampleNoBids = []" "isAutoAuction exampleNoBids"
    by (simp_all add: exampleNoBids_def exampleIdle_def findPlayer_def)
  note T = settlement_resets_and_marks_unsold [where s = exampleNoBids and a = ?a and pid = 1
      and pl = ?pl and now = 3]
  from T h n u have 1: "map_option status (findPlayer (handleAutoSold 3 exampleNoBids) 1) = Some UNSOLD"
    and 2: "unsoldPlayers (handleAutoSold 3 exampleNoBids) = [1]"
    and 4: "\<not> auctionTimer (handleAutoSold 3 exampleNoBids)"
    by simp_all
  from T d have 5: "distinct (unsoldPlayers (handleAutoSold 3 exampleNoBids))" by simp
  from T h obtain a' where a': "auctionStateStore (handleAutoSold 3 exampleNoBids) = Some a'"
      "currentPlayer a' = None" by blast
  then have "handleAutoSold 4 (handleAutoSold 3 exampleNoBids) = stopTimer (handleAutoSold 3 exampleNoBids)"
    by (simp add: handleAutoSold_skip)
  with 2 have 3: "unsoldPlayers (handleAutoSold 4 (handleAutoSold 3 exampleNoBids)) = [1]"
    by (simp add: stopTimer_eq)
  from 1 2 3 4 5 show ?thesis by blast
qed







section \<open>Undoing a sale\<close>
















section \<open>The presentation lock and the delayed advance\<close>

lemma manual_start_blocked_by_summary:
  assumes "sid \<in> adminSockets s" "isTeamSummaryShowing s"
  shows "admin_startAuction sid pid now s = emit (ToSocket sid) (ErrorEvent WaitForTeamSummary) s"
  using assms by (simp add: admin_startAuction_def)

text \<open>
  Claim C3 at a concrete input. While the results screen is showing, the manual
  \<open>admin:startAuction\<close> is answered with "Please wait for team summary to complete" and
  changes nothing else. The command \<open>admin:startAutoAuction\<close> in the same state builds
  the queue and starts its first lot: lot 2 is \<open>IN_AUCTION\<close>, the auction is active and
  the countdown runs, although the lock is still held. The delayed advance does the
  same: when the results screen comes up after a settlement and the scheduled callback
  fires, the next lot of the queue is started under the lock.
\<close>

theorem auto_start_ignores_summary_lock:
  "isTeamSummaryShowing exampleSummaryShowing
   \<and> admin_startAuction 99 2 0 exampleSummaryShowing =
       emit (ToSocket 99) (ErrorEvent WaitForTeamSummary) exampleSummaryShowing
   \<and> (let s' = admin_startAutoAuction (\<lambda>_. 0) 99 0 exampleSummaryShowing
      in isTeamSummaryShowing s' \<and> auctionTimer s' \<and>
         map_option currentPlayer (auctionStateStore s') = Some (Some 2) \<and>
         map_option isActive (auctionStateStore s') = Some True \<and>
         map_option status (findPlayer s' 2) = Some IN_AUCTION)
   \<and> (let s' = run [(0, StartAutoAuction (\<lambda>_. 0) 99), (1, TimerTick), (2, SummaryStarting),
                    (3, AdvanceFires)] exampleIdle
      in isTeamSummaryShowing s' \<and> auctionTimer s' \<and>
         map_option currentPlayer (auctionStateStore s') = Some (Some 1) \<and>
         map_option isActive (auctionStateStore s') = Some True \<and>
         map_option status (findPlayer s' 1) = Some IN_AUCTION)"
proof (intro conjI)
  show "isTeamSummaryShowing exampleSummaryShowing"
    by (simp add: exampleSummaryShowing_def)
  show "admin_startAuction 99 2 0 exampleSummaryShowing =
       emit (ToSocket 99) (ErrorEvent WaitForTeamSummary) exampleSummaryShowing"
    by (rule manual_start_blocked_by_summary)
       (simp_all add: exampleSummaryShowing_def exampleIdle_def)
  show "let s' = admin_startAutoAuction (\<lambda>_. 0) 99 0 exampleSummaryShowing
      in isTeamSummaryShowing s' \<and> auctionTimer s' \<and>
         map_option currentPlayer (auctionStateStore s') = Some (Some 2) \<and>
         map_option isActive (auctionStateStore s') = Some True \<and>
         map_option status (findPlayer s' 2) = Some IN_AUCTION"
    by code_simp
  show "let s' = run [(0, StartAutoAuction (\<lambda>_. 0) 99), (1, TimerTick), (2, SummaryStarting),
                    (3, AdvanceFires)] exampleIdle
      in isTeamSummaryShowing s' \<and> auctionTimer s' \<and>
         map_option currentPlayer (auctionStateStore s') = Some (Some 1) \<and>
         map_option isActive (auctionStateStore s') = Some True \<and>
         map_option status (findPlayer s' 1) = Some IN_AUCTION"
    by code_simp
qed

text \<open>
  Claim C4 at a concrete input. Auto-run is started over lots 1 and 2 with a countdown
  of one tick; lot 2 (the higher base price) goes first, gets no bid and is settled by
  the first tick, which schedules the delayed advance. Stopping auto-run then clears the
  mode flag and leaves the scheduled callback pending; when it fires, lot 1 is started
  with the mode flag off.
\<close>

theorem stale_advance_starts_next_lot:
  "(let s' = run [(0, StartAutoAuction (\<lambda>_. 0) 99), (1, TimerTick), (2, StopAutoAuction 99)]
               exampleIdle
    in \<not> isAutoAuction s' \<and> pendingAdvance s' = 1 \<and> \<not> auctionTimer s' \<and>
       map_option isActive (auctionStateStore s') = Some False \<and> playerQueue s' = [1])
   \<and> (let s' = run [(0, StartAutoAuction (\<lambda>_. 0) 99), (1, TimerTick), (2, StopAutoAuction 99),
                    (3, AdvanceFires)] exampleIdle
      in \<not> isAutoAuction s' \<and> auctionTimer s' \<and>
         map_option currentPlayer (auctionStateStore s') = Some (Some 1) \<and>
         map_option isActive (auctionStateStore s') = Some True \<and>
         map_option status (findPlayer s' 1) = Some IN_AUCTION)"
  by code_simp

section \<open>The queue that auto-run builds\<close>

lemma groupOf_addToGroup:
  "groupOf (addToGroup g k x) k' = groupOf g k' @ (if k' = k then [x] else [])"
  by (simp add: groupOf_def addToGroup_def update_conv')

lemma keys_addToGroup: "fst ` set (addToGroup g k x) = insert k (fst ` set g)"
  using update_keys [of k "groupOf g k @ [x]" g]
  by (auto simp: addToGroup_def groupOf_def simp flip: set_map split: if_splits)

lemma distinct_addToGroup: "distinct (map fst g) \<Longrightarrow> distinct (map fst (addToGroup g k x))"
  by (simp add: addToGroup_def distinct_update)

lemma foldl_addToGroup:
  fixes f :: "'a \<Rightarrow> int"
  shows "groupOf (foldl (\<lambda>g p. addToGroup g (f p) p) g ps) k = groupOf g k @ filter (\<lambda>p. f p = k) ps"
    and "fst ` set (foldl (\<lambda>g p. addToGroup g (f p) p) g ps) = fst ` set g \<union> f ` set ps"
    and "distinct (map fst g) \<Longrightarrow> distinct (map fst (foldl (\<lambda>g p. addToGroup g (f p) p) g ps))"
  by (induction ps arbitrary: g)
     (simp_all add: groupOf_addToGroup keys_addToGroup distinct_addToGroup)

lemma fisherYates_mset:
  "k = 0 \<or> k < length xs \<Longrightarrow> mset (fst (fisherYates rnd c k xs)) = mset xs"
proof (induction k arbitrary: c xs)
  case 0
  then show ?case by simp
next
  case (Suc k)
  then have i: "Suc k < length xs" by simp
  have "rnd c mod (Suc k + 1) < Suc k + 1" by simp
  with i have j: "rnd c mod (Suc k + 1) < length xs" by linarith
  let ?ys = "xs[Suc k := xs ! (rnd c mod (Suc k + 1)), rnd c mod (Suc k + 1) := xs ! Suc k]"
  have "mset ?ys = mset xs" using i j by (simp add: mset_swap)
  moreover have "k = 0 \<or> k < length ?ys" using i by simp
  ultimately show ?case using Suc.IH [of ?ys "c + 1"] by (simp add: Let_def)
qed

lemma fisherYates_perm:
  "mset (fst (fisherYates rnd c (length xs - 1) xs)) = mset xs"
  by (rule fisherYates_mset) (cases xs, simp_all)

lemma shuffleGroups_result:
  fixes f :: "'a \<Rightarrow> int"
  assumes "\<And>k. k \<in> set ks \<Longrightarrow> map_of g k \<noteq> None"
      and "\<And>k x. x \<in> set (groupOf g k) \<Longrightarrow> f x = k"
      and "sorted_wrt (\<lambda>a b. b \<le> a) ks"
      and "sorted_wrt (\<lambda>a b. f b \<le> f a) acc"
      and "\<And>x k. x \<in> set acc \<Longrightarrow> k \<in> set ks \<Longrightarrow> k \<le> f x"
  shows "\<exists>q. shuffleGroups rnd c g ks acc = Some q \<and>
             mset q = mset acc + (\<Sum>k\<leftarrow>ks. mset (groupOf g k)) \<and>
             sorted_wrt (\<lambda>a b. f b \<le> f a) q"
  using assms
proof (induction ks arbitrary: c acc)
  case Nil
  then show ?case by simp
next
  case (Cons k ks)
  from Cons.prems(1) [of k] obtain grp where grp: "map_of g k = Some grp" by auto
  then have gk: "groupOf g k = grp" by (simp add: groupOf_def)
  obtain sh c' where fy: "fisherYates rnd c (length grp - 1) grp = (sh, c')"
    by (cases "fisherYates rnd c (length grp - 1) grp")
  have msh: "mset sh = mset grp" using fisherYates_perm [of rnd c grp] fy by simp
  then have ssh: "set sh = set grp" by (rule mset_eq_setD)
  have fsh: "\<And>x. x \<in> set sh \<Longrightarrow> f x = k" using Cons.prems(2) [of _ k] ssh gk by simp
  have s1: "sorted_wrt (\<lambda>a b. f b \<le> f a) sh"
    using fsh by (simp add: sorted_wrt_iff_nth_less)
  have s2: "sorted_wrt (\<lambda>a b. f b \<le> f a) (acc @ sh)"
    using Cons.prems(4) s1 Cons.prems(5) [of _ k] fsh by (auto simp: sorted_wrt_append)
  have s3: "\<And>x k'. x \<in> set (acc @ sh) \<Longrightarrow> k' \<in> set ks \<Longrightarrow> k' \<le> f x"
    using Cons.prems(3) Cons.prems(5) fsh by auto
  from Cons.prems(3) have s4: "sorted_wrt (\<lambda>a b. b \<le> a) ks" by simp
  from Cons.IH [OF _ Cons.prems(2) s4 s2 s3, of c'] Cons.prems(1)
  obtain q where q: "shuffleGroups rnd c' g ks (acc @ sh) = Some q"
      "mset q = mset (acc @ sh) + (\<Sum>k\<leftarrow>ks. mset (groupOf g k))"
      "sorted_wrt (\<lambda>a b. f b \<le> f a) q"
    by auto
  show ?case using q grp fy msh gk by (simp add: ac_simps)
qed

lemma sum_groups_by_key:
  fixes f :: "'a \<Rightarrow> int"
  assumes "distinct ks" "f ` set ps \<subseteq> set ks"
  shows "(\<Sum>k\<leftarrow>ks. mset (filter (\<lambda>p. f p = k) ps)) = mset ps"
  using assms(2)
proof (induction ps)
  case Nil
  then show ?case by (induction ks) simp_all
next
  case (Cons p ps)
  have one: "(\<Sum>k\<leftarrow>ks. if f p = k then {#p#} else {#}) = {#p#}"
    using assms(1) Cons.prems
    by (simp add: sum_list_distinct_conv_sum_set sum.delta')
  have "(\<Sum>k\<leftarrow>ks. mset (filter (\<lambda>q. f q = k) (p # ps))) =
        (\<Sum>k\<leftarrow>ks. (if f p = k then {#p#} else {#}) + mset (filter (\<lambda>q. f q = k) ps))"
    by (rule arg_cong [where f = sum_list]) (auto intro!: map_cong)
  also have "\<dots> = (\<Sum>k\<leftarrow>ks. if f p = k then {#p#} else {#}) + (\<Sum>k\<leftarrow>ks. mset (filter (\<lambda>q. f q = k) ps))"
    by (simp add: sum_list_addf)
  also have "\<dots> = {#p#} + mset ps" using one Cons by simp
  finally show ?case by simp
qed

lemma buildQueue_perm_sorted:
  "\<exists>q. buildQueue rnd ps = Some q \<and> mset q = mset ps \<and>
        sorted_wrt (\<lambda>a b. basePrice (snd b) \<le> basePrice (snd a)) q"
proof -
  let ?f = "\<lambda>p::player_id \<times> player. basePrice (snd p)"
  let ?g = "playersByPrice ps"
  let ?ks = "sortedPrices ?g"
  have grp: "\<And>k. groupOf ?g k = filter (\<lambda>p. ?f p = k) ps"
    using foldl_addToGroup(1) [of ?f "[]" ps] by (simp add: playersByPrice_def groupOf_def)
  have keys: "fst ` set ?g = ?f ` set ps"
    using foldl_addToGroup(2) [of ?f "[]" ps] by (simp add: playersByPrice_def)
  have dist: "distinct (map fst ?g)"
    using foldl_addToGroup(3) [of "[]" ?f ps] by (simp add: playersByPrice_def)
  have ks_set: "set ?ks = fst ` set ?g" by (simp add: sortedPrices_def)
  have ks_dist: "distinct ?ks" using dist by (simp add: sortedPrices_def)
  have "sorted (map uminus ?ks)" unfolding sortedPrices_def by (rule sorted_sort_key)
  then have ks_sorted: "sorted_wrt (\<lambda>a b. b \<le> a) ?ks" by (simp add: sorted_map)
  have a1: "\<And>k. k \<in> set ?ks \<Longrightarrow> map_of ?g k \<noteq> None"
    using ks_set by (simp add: map_of_eq_None_iff)
  have a2: "\<And>k x. x \<in> set (groupOf ?g k) \<Longrightarrow> ?f x = k" by (simp add: grp)
  from shuffleGroups_result [of ?ks ?g ?f "[]" rnd 0, OF a1 a2 ks_sorted]
  obtain q where q: "shuffleGroups rnd 0 ?g ?ks [] = Some q"
      "mset q = (\<Sum>k\<leftarrow>?ks. mset (groupOf ?g k))"
      "sorted_wrt (\<lambda>a b. ?f b \<le> ?f a) q"
    by auto
  have "(\<Sum>k\<leftarrow>?ks. mset (groupOf ?g k)) = mset ps"
    using sum_groups_by_key [of ?ks ?f ps] ks_dist ks_set keys by (simp add: grp)
  with q show ?thesis by (auto simp: buildQueue_def Let_def)
qed

text \<open>
  Claim C6. Whatever the random draws, building the queue from the players that are not
  \<open>SOLD\<close> succeeds, and the result is a permutation of exactly those players (same
  length, each lot once, no sold lot) along which base prices never increase, so every
  lot of a higher price group comes before every lot of a lower one. With distinct ids
  in the store the queue holds distinct ids. The handler \<open>admin:startAutoAuction\<close>, sent
  by a control connection when some player is available, installs the ids of that list
  as the queue and goes on to start its first lot.
\<close>

theorem buildQueue_is_sorted_permutation:
  "\<exists>q. buildQueue rnd (availablePlayers s) = Some q
      \<and> mset q = filter_mset (\<lambda>p. status (snd p) \<noteq> SOLD) (mset (playerStore s))
      \<and> length q = length (availablePlayers s)
      \<and> sorted_wrt (\<lambda>a b. basePrice (snd b) \<le> basePrice (snd a)) q
      \<and> (distinct (map fst (playerStore s)) \<longrightarrow> distinct (map fst q))
      \<and> (sid \<in> adminSockets s \<and> availablePlayers s \<noteq> [] \<longrightarrow>
           admin_startAutoAuction rnd sid now s =
             processNextPlayerInQueue now
               (emit ToAdmin (AutoAuctionStarted (length q) (length q))
                  (s\<lparr>playerQueue := map fst q, unsoldPlayers := [], isAutoAuction := True\<rparr>)))"
proof -
  from buildQueue_perm_sorted [of rnd "availablePlayers s"]
  obtain q where q: "buildQueue rnd (availablePlayers s) = Some q"
      "mset q = mset (availablePlayers s)"
      "sorted_wrt (\<lambda>a b. basePrice (snd b) \<le> basePrice (snd a)) q"
    by blast
  have m: "mset q = filter_mset (\<lambda>p. status (snd p) \<noteq> SOLD) (mset (playerStore s))"
    using q(2) by (simp add: availablePlayers_def)
  have l: "length q = length (availablePlayers s)"
    using q(2) by (rule mset_eq_length)
  have d: "distinct (map fst (playerStore s)) \<longrightarrow> distinct (map fst q)"
  proof
    assume "distinct (map fst (playerStore s))"
    then have "distinct (map fst (availablePlayers s))"
      by (simp add: availablePlayers_def distinct_map_filter)
    moreover have "mset (map fst q) = mset (map fst (availablePlayers s))"
      using q(2) by simp
    ultimately show "distinct (map fst q)"
      by (metis mset_eq_imp_distinct_iff)
  qed
  have h: "sid \<in> adminSockets s \<and> availablePlayers s \<noteq> [] \<longrightarrow>
           admin_startAutoAuction rnd sid now s =
             processNextPlayerInQueue now
               (emit ToAdmin (AutoAuctionStarted (length q) (length q))
                  (s\<lparr>playerQueue := map fst q, unsoldPlayers := [], isAutoAuction := True\<rparr>))"
    using q(1) by (simp add: admin_startAutoAuction_def Let_def)
  from q(1) m l q(3) d h show ?thesis by blast
qed

theorem buildQueue_is_sorted_permutation_witness:
  "\<exists>q. buildQueue (\<lambda>_. 0) (availablePlayers exampleIdle) = Some q
      \<and> mset q = mset examplePlayers
      \<and> length q = 2
      \<and> sorted_wrt (\<lambda>a b. basePrice (snd b) \<le> basePrice (snd a)) q
      \<and> distinct (map fst q)
      \<and> admin_startAutoAuction (\<lambda>_. 0) 99 0 exampleIdle =
           processNextPlayerInQueue 0
             (emit ToAdmin (AutoAuctionStarted (length q) (length q))
                (exampleIdle\<lparr>playerQueue := map fst q, unsoldPlayers := [], isAutoAuction := True\<rparr>))"
proof -
  have av: "availablePlayers exampleIdle = examplePlayers"
    by (simp add: availablePlayers_def exampleIdle_def examplePlayers_def)
  have f: "filter_mset (\<lambda>p. status (snd p) \<noteq> SOLD) (mset (playerStore exampleIdle)) = mset examplePlayers"
    using av by (simp add: availablePlayers_def flip: mset_filter)
  have d: "distinct (map fst (playerStore exampleIdle))"
    by (simp add: exampleIdle_def examplePlayers_def)
  have a: "99 \<in> adminSockets exampleIdle \<and> availablePlayers exampleIdle \<noteq> []"
    by (simp add: av) (simp add: exampleIdle_def examplePlayers_def)
  have n: "length (availablePlayers exampleIdle) = 2"
    by (simp add: av examplePlayers_def)
  from buildQueue_is_sorted_permutation [of "\<lambda>_. 0" exampleIdle 99 0] f d a n
  show ?thesis by auto
qed

section \<open>Budgets stay non-negative\<close>





























end
